theory Spec2Isabelle
  imports Main
begin

section \<open>Python values\<close>

text \<open>
  \<^verbatim>\<open>Assignment.py\<close> is a Flask service with four POST routes. Each route reads the
  JSON body of the request, builds one CLI command or a list of them, hands it to Netmiko
  over a fresh SSH session, and returns the device's text as a JSON list of lines.

  The values the handlers see are the ones \<^verbatim>\<open>json.loads\<close> produces. A Python \<^verbatim>\<open>str\<close> is
  a \<^typ>\<open>string\<close> whose characters stand for one code point each; code points above 255
  are outside this model. A \<^verbatim>\<open>float\<close> carries the text Python's \<^verbatim>\<open>repr\<close> prints for it,
  since nothing in the service computes with it. A \<^verbatim>\<open>dict\<close> is an association list
  in insertion order whose keys are distinct; lookup takes the first entry of a key.
\<close>

datatype pyval =
    PNone
  | PBool bool
  | PInt int
  | PFloat string
  | PStr string
  | PList "pyval list"
  | PDict "(string \<times> pyval) list"

text \<open>
  An exception is its class name and the text \<^verbatim>\<open>str(e)\<close> gives. Every exception of the
  model derives from \<^verbatim>\<open>Exception\<close>, so \<^verbatim>\<open>except Exception\<close> catches all of them.
\<close>

datatype exn = Exn (exn_class: string) (exn_str: string)

definition bind_exn :: "exn + 'a \<Rightarrow> ('a \<Rightarrow> exn + 'b) \<Rightarrow> exn + 'b" where
  "bind_exn m f = (case m of Inl e \<Rightarrow> Inl e | Inr x \<Rightarrow> f x)"

definition try_except :: "exn + 'a \<Rightarrow> (exn \<Rightarrow> exn + 'a) \<Rightarrow> exn + 'a" where
  "try_except m handler = (case m of Inl e \<Rightarrow> handler e | Inr x \<Rightarrow> Inr x)"

fun type_name :: "pyval \<Rightarrow> string" where
  "type_name PNone = ''NoneType''"
| "type_name (PBool _) = ''bool''"
| "type_name (PInt _) = ''int''"
| "type_name (PFloat _) = ''float''"
| "type_name (PStr _) = ''str''"
| "type_name (PList _) = ''list''"
| "type_name (PDict _) = ''dict''"

text \<open>The \<^verbatim>\<open>AttributeError\<close> of a method call on a value whose type lacks the method.\<close>

definition attribute_error :: "pyval \<Rightarrow> string \<Rightarrow> exn" where
  "attribute_error v attr =
     Exn ''AttributeError''
       ([CHR 0x27] @ type_name v @ [CHR 0x27] @ '' object has no attribute ''
        @ [CHR 0x27] @ attr @ [CHR 0x27])"

text \<open>\<^verbatim>\<open>data.get(key)\<close>: only a dict has the method; a missing key reads as \<^verbatim>\<open>None\<close>.\<close>

fun py_get :: "pyval \<Rightarrow> string \<Rightarrow> exn + pyval" where
  "py_get (PDict kvs) key = Inr (case map_of kvs key of None \<Rightarrow> PNone | Some v \<Rightarrow> v)"
| "py_get v key = Inl (attribute_error v ''get'')"

subsection \<open>Text of a value inside an f-string\<close>

fun str_nat :: "nat \<Rightarrow> string" where
  "str_nat n =
     (if n < 10 then [''0123456789'' ! n]
      else str_nat (n div 10) @ [''0123456789'' ! (n mod 10)])"

declare str_nat.simps [simp del]

definition str_int :: "int \<Rightarrow> string" where
  "str_int i = (if i < 0 then CHR ''-'' # str_nat (nat (- i)) else str_nat (nat i))"

definition hex2 :: "nat \<Rightarrow> string" where
  "hex2 n = [''0123456789abcdef'' ! (n div 16), ''0123456789abcdef'' ! (n mod 16)]"

text \<open>
  \<^verbatim>\<open>str.isprintable\<close> below code point 256: the control characters, the no-break space
  and the soft hyphen are not printable.
\<close>

definition printable :: "char \<Rightarrow> bool" where
  "printable c =
     (let n = (of_char c :: nat)
      in (32 \<le> n \<and> n < 127) \<or> (161 \<le> n \<and> n \<noteq> 173))"

definition repr_char :: "char \<Rightarrow> char \<Rightarrow> string" where
  "repr_char quote c =
     (if c = quote \<or> c = CHR 0x5C then [CHR 0x5C, c]
      else if c = CHR 0x09 then [CHR 0x5C, CHR ''t'']
      else if c = CHR 0x0A then [CHR 0x5C, CHR ''n'']
      else if c = CHR 0x0D then [CHR 0x5C, CHR ''r'']
      else if printable c then [c]
      else [CHR 0x5C, CHR ''x''] @ hex2 (of_char c))"

definition repr_str :: "string \<Rightarrow> string" where
  "repr_str s =
     (let quote = (if CHR 0x27 \<in> set s \<and> CHR 0x22 \<notin> set s then CHR 0x22 else CHR 0x27)
      in [quote] @ concat (map (repr_char quote) s) @ [quote])"

fun py_join :: "string \<Rightarrow> string list \<Rightarrow> string" where
  "py_join sep [] = []"
| "py_join sep [x] = x"
| "py_join sep (x # y # ys) = x @ sep @ py_join sep (y # ys)"

fun py_repr :: "pyval \<Rightarrow> string"
  and repr_items :: "pyval list \<Rightarrow> string list"
  and repr_entries :: "(string \<times> pyval) list \<Rightarrow> string list" where
  "py_repr PNone = ''None''"
| "py_repr (PBool b) = (if b then ''True'' else ''False'')"
| "py_repr (PInt i) = str_int i"
| "py_repr (PFloat text) = text"
| "py_repr (PStr s) = repr_str s"
| "py_repr (PList vs) = ''['' @ py_join '', '' (repr_items vs) @ '']''"
| "py_repr (PDict kvs) = ''{'' @ py_join '', '' (repr_entries kvs) @ ''}''"
| "repr_items [] = []"
| "repr_items (v # vs) = py_repr v # repr_items vs"
| "repr_entries [] = []"
| "repr_entries ((k, v) # kvs) = (repr_str k @ '': '' @ py_repr v) # repr_entries kvs"

text \<open>
  A replacement field \<^verbatim>\<open>{x}\<close> of an f-string with no format spec: a \<^verbatim>\<open>str\<close> is
  inserted as it is, every other value as \<^verbatim>\<open>str(x)\<close>, which is its \<^verbatim>\<open>repr\<close> for the
  types of this model.
\<close>

fun py_format :: "pyval \<Rightarrow> string" where
  "py_format (PStr s) = s"
| "py_format v = py_repr v"

subsection \<open>\<^verbatim>\<open>str.split\<close> and \<^verbatim>\<open>str.strip\<close>\<close>

text \<open>
  \<^verbatim>\<open>s.split(sep)\<close> for a one-character separator: the pieces between the occurrences of
  the separator, empty pieces included, so the result is never empty.
\<close>

fun py_split :: "string \<Rightarrow> char \<Rightarrow> string list" where
  "py_split [] sep = [[]]"
| "py_split (c # cs) sep =
     (if c = sep then [] # py_split cs sep
      else (case py_split cs sep of
              [] \<Rightarrow> [[c]]
            | piece # pieces \<Rightarrow> (c # piece) # pieces))"

text \<open>
  The code points below 256 for which \<^verbatim>\<open>str.isspace\<close> holds: tab, line feed, vertical
  tab, form feed, carriage return, the four separators \<^verbatim>\<open>0x1C\<close> to \<^verbatim>\<open>0x1F\<close>, space,
  next line \<^verbatim>\<open>0x85\<close> and no-break space \<^verbatim>\<open>0xA0\<close>.
\<close>

definition is_space :: "char \<Rightarrow> bool" where
  "is_space c =
     (let n = (of_char c :: nat)
      in (9 \<le> n \<and> n \<le> 13) \<or> (28 \<le> n \<and> n \<le> 32) \<or> n = 133 \<or> n = 160)"

definition lstrip :: "string \<Rightarrow> string" where
  "lstrip s = dropWhile is_space s"

definition rstrip :: "string \<Rightarrow> string" where
  "rstrip s = rev (dropWhile is_space (rev s))"

definition strip :: "string \<Rightarrow> string" where
  "strip s = rstrip (lstrip s)"

section \<open>The response formatter\<close>

text \<open>
  \<^verbatim>\<open>
  def format_response(netmiko_response):
      lines = [line.strip() for line in netmiko_response.split('\n') if line.strip()]
      return {'netmiko_response': lines}
  \<close>
  The comprehension keeps a line when its stripped text is truthy, that is, not empty.
  \<open>lines\<close> is the local variable of that name, as a function of the text.
\<close>

definition lines :: "string \<Rightarrow> string list" where
  "lines netmiko_response =
     map strip (filter (\<lambda>line. strip line \<noteq> []) (py_split netmiko_response CHR 0x0A))"

text \<open>
  Only a \<^verbatim>\<open>str\<close> has a \<^verbatim>\<open>split\<close> that takes a \<^verbatim>\<open>str\<close> separator; on every other
  value of the model the attribute lookup raises.
\<close>

fun format_response :: "pyval \<Rightarrow> exn + pyval" where
  "format_response (PStr netmiko_response) =
     Inr (PDict [(''netmiko_response'', PList (map PStr (lines netmiko_response)))])"
| "format_response v = Inl (attribute_error v ''split'')"

section \<open>The device session\<close>

text \<open>
  \<^verbatim>\<open>
  device_info = {
      'device_type': 'cisco_xr',
      'ip': 'sandbox-iosxr-1.cisco.com',
      'username': 'USER',
      'password': 'PASSWORD',
      'port': 22,
  }
  \<close>
\<close>

record device_params =
  device_type :: string
  ip :: string
  username :: string
  password :: string
  port :: int

definition device_info :: device_params where
  "device_info =
     \<lparr>device_type = ''cisco_xr'', ip = ''sandbox-iosxr-1.cisco.com'',
      username = ''USER'', password = ''PASSWORD'', port = 22\<rparr>"

text \<open>
  Netmiko and the device behind it are the environment of the service. An open session
  answers \<^verbatim>\<open>send_command\<close> and \<^verbatim>\<open>send_config_set\<close> with the device's text or raises,
  and leaving the \<^verbatim>\<open>with\<close> block runs its \<^verbatim>\<open>__exit__\<close>, which disconnects and may
  raise too. \<^verbatim>\<open>ConnectHandler(**device_info)\<close> opens the session or raises.
\<close>

record ssh_conn =
  send_command :: "pyval \<Rightarrow> exn + string"
  send_config_set :: "string list \<Rightarrow> exn + string"
  exit_raises :: "exn option"

type_synonym connect_handler = "device_params \<Rightarrow> exn + ssh_conn"

text \<open>
  \<^verbatim>\<open>with manager as conn: body\<close>: a manager that fails to construct raises before the
  block is entered; otherwise \<^verbatim>\<open>__exit__\<close> runs whether the body returned or raised,
  and an exception of \<^verbatim>\<open>__exit__\<close> replaces the outcome of the body.
\<close>

definition with_conn :: "exn + ssh_conn \<Rightarrow> (ssh_conn \<Rightarrow> exn + 'a) \<Rightarrow> exn + 'a" where
  "with_conn manager body =
     bind_exn manager (\<lambda>conn.
       let outcome = body conn
       in (case exit_raises conn of Some e \<Rightarrow> Inl e | None \<Rightarrow> outcome))"

text \<open>
  \<^verbatim>\<open>
  def send_netmiko_request(device_info, command):
      try:
          with ConnectHandler(**device_info) as ssh_conn:
              output = ssh_conn.send_command(command)
          return output
      except Exception as e:
          return f'Netmiko Error: {str(e)}'
  \<close>
\<close>

definition send_netmiko_request ::
    "connect_handler \<Rightarrow> device_params \<Rightarrow> pyval \<Rightarrow> exn + string" where
  "send_netmiko_request ConnectHandler info command =
     try_except
       (with_conn (ConnectHandler info) (\<lambda>ssh_conn. send_command ssh_conn command))
       (\<lambda>e. Inr (''Netmiko Error: '' @ exn_str e))"

text \<open>
  \<^verbatim>\<open>
  def send_netmiko_config(device_info, config_commands):
      try:
          with ConnectHandler(**device_info) as ssh_conn:
              output = ssh_conn.send_config_set(config_commands)
          return output
      except Exception as e:
          return f'Netmiko Error: {str(e)}'
  \<close>
\<close>

definition send_netmiko_config ::
    "connect_handler \<Rightarrow> device_params \<Rightarrow> string list \<Rightarrow> exn + string" where
  "send_netmiko_config ConnectHandler info config_commands =
     try_except
       (with_conn (ConnectHandler info)
          (\<lambda>ssh_conn. send_config_set ssh_conn config_commands))
       (\<lambda>e. Inr (''Netmiko Error: '' @ exn_str e))"

section \<open>The route handlers\<close>

text \<open>
  A response is its status code and the value given to \<^verbatim>\<open>jsonify\<close>. A view that
  returns \<^verbatim>\<open>jsonify(x)\<close> alone answers 200; \<^verbatim>\<open>jsonify(x), 500\<close> sets the status.
\<close>

record response =
  status :: nat
  body :: pyval

definition jsonify :: "pyval \<Rightarrow> response" where
  "jsonify v = \<lparr>status = 200, body = v\<rparr>"

definition error_response :: "exn \<Rightarrow> response" where
  "error_response e = (jsonify (PDict [(''error'', PStr (exn_str e))]))\<lparr>status := 500\<rparr>"

text \<open>
  The handlers take what reading \<^verbatim>\<open>request.json\<close> gives: the parsed body, or the
  exception Flask raises for a body that is not JSON.
  \<^verbatim>\<open>
  def network_interaction():
      try:
          data = request.json
          command = data.get('command')
          netmiko_response = send_netmiko_request(device_info, command)
          return jsonify(format_response(netmiko_response))
      except Exception as e:
          return jsonify({'error': str(e)}), 500
  \<close>
\<close>

definition network_interaction :: "connect_handler \<Rightarrow> exn + pyval \<Rightarrow> exn + response" where
  "network_interaction ConnectHandler request_json =
     try_except
       (bind_exn request_json (\<lambda>data.
        bind_exn (py_get data ''command'') (\<lambda>command.
        bind_exn (send_netmiko_request ConnectHandler device_info command)
          (\<lambda>netmiko_response.
        bind_exn (format_response (PStr netmiko_response)) (\<lambda>formatted.
        Inr (jsonify formatted))))))
       (\<lambda>e. Inr (error_response e))"

text \<open>
  \<^verbatim>\<open>
  def configure_loopback():
      try:
          data = request.json
          loopback_number = data.get('loopback_number')
          ip_address = data.get('ip_address')
          config_commands = [
              f'interface Loopback{loopback_number}',
              f'ip address {ip_address}',
              'commit',
              'exit'
          ]
          netmiko_response = send_netmiko_config(device_info, config_commands)
          return jsonify(format_response(netmiko_response))
      except Exception as e:
          return jsonify({'error': str(e)}), 500
  \<close>
\<close>

text \<open>
  The list literal bound to \<^verbatim>\<open>config_commands\<close>, as a function of the two fields read
  from the body.
\<close>

definition config_commands :: "pyval \<Rightarrow> pyval \<Rightarrow> string list" where
  "config_commands loopback_number ip_address =
     [''interface Loopback'' @ py_format loopback_number,
      ''ip address '' @ py_format ip_address,
      ''commit'',
      ''exit'']"

definition configure_loopback :: "connect_handler \<Rightarrow> exn + pyval \<Rightarrow> exn + response" where
  "configure_loopback ConnectHandler request_json =
     try_except
       (bind_exn request_json (\<lambda>data.
        bind_exn (py_get data ''loopback_number'') (\<lambda>loopback_number.
        bind_exn (py_get data ''ip_address'') (\<lambda>ip_address.
        bind_exn (send_netmiko_config ConnectHandler device_info
                    (config_commands loopback_number ip_address))
          (\<lambda>netmiko_response.
        bind_exn (format_response (PStr netmiko_response)) (\<lambda>formatted.
        Inr (jsonify formatted)))))))
       (\<lambda>e. Inr (error_response e))"

text \<open>
  \<^verbatim>\<open>
  def delete_loopback():
      try:
          data = request.json
          loopback_number = data.get('loopback_number')
          delete_commands = [
              f'no interface Loopback{loopback_number}',
              'commit',
              'exit'
          ]
          netmiko_response = send_netmiko_config(device_info, delete_commands)
          return jsonify(format_response(netmiko_response))
      except Exception as e:
          return jsonify({'error': str(e)}), 500
  \<close>
\<close>

text \<open>The list literal bound to \<^verbatim>\<open>delete_commands\<close>.\<close>

definition delete_commands :: "pyval \<Rightarrow> string list" where
  "delete_commands loopback_number =
     [''no interface Loopback'' @ py_format loopback_number,
      ''commit'',
      ''exit'']"

definition delete_loopback :: "connect_handler \<Rightarrow> exn + pyval \<Rightarrow> exn + response" where
  "delete_loopback ConnectHandler request_json =
     try_except
       (bind_exn request_json (\<lambda>data.
        bind_exn (py_get data ''loopback_number'') (\<lambda>loopback_number.
        bind_exn (send_netmiko_config ConnectHandler device_info
                    (delete_commands loopback_number))
          (\<lambda>netmiko_response.
        bind_exn (format_response (PStr netmiko_response)) (\<lambda>formatted.
        Inr (jsonify formatted))))))
       (\<lambda>e. Inr (error_response e))"

text \<open>
  \<^verbatim>\<open>
  def device_interfaces():
      try:
          netmiko_response = send_netmiko_request(device_info, 'show ip interface brief')
          return jsonify(format_response(netmiko_response))
      except Exception as e:
          return jsonify({'error': str(e)}), 500
  \<close>
  This handler does not read the request.
\<close>

definition device_interfaces :: "connect_handler \<Rightarrow> exn + response" where
  "device_interfaces ConnectHandler =
     try_except
       (bind_exn (send_netmiko_request ConnectHandler device_info
                    (PStr ''show ip interface brief''))
          (\<lambda>netmiko_response.
        bind_exn (format_response (PStr netmiko_response)) (\<lambda>formatted.
        Inr (jsonify formatted))))
       (\<lambda>e. Inr (error_response e))"

section \<open>Sample devices\<close>

text \<open>
  Two environments to run the handlers on: a host that cannot be reached, so that
  \<^verbatim>\<open>ConnectHandler\<close> raises, and a device that answers. The answering device prints
  two interfaces for \<^verbatim>\<open>show ip interface brief\<close>, echoes any other command, and its
  \<^verbatim>\<open>send_command\<close> raises on a command that is not a \<^verbatim>\<open>str\<close>, as a call of
  \<^verbatim>\<open>rstrip\<close> on it would.
\<close>

definition unreachable :: connect_handler where
  "unreachable info = Inl (Exn ''NetmikoTimeoutException'' ''TCP connection to device failed.'')"

definition router_conn :: ssh_conn where
  "router_conn =
     \<lparr>send_command = (\<lambda>command.
        case command of
          PStr c \<Rightarrow>
            if c = ''show ip interface brief''
            then Inr ''Gi0/0/0/0   up   up\<newline>\<newline>Gi0/0/0/1  down  down''
            else Inr (''% echo '' @ c)
        | v \<Rightarrow> Inl (attribute_error v ''rstrip'')),
      send_config_set = (\<lambda>commands. Inr (py_join ''\<newline>'' commands)),
      exit_raises = None\<rparr>"

definition router :: connect_handler where
  "router info = Inr router_conn"

text \<open>A third device accepts the session and then times out on whatever it is sent.\<close>

definition hanging_conn :: ssh_conn where
  "hanging_conn =
     \<lparr>send_command = (\<lambda>command. Inl (Exn ''ReadTimeout'' ''Pattern not detected'')),
      send_config_set = (\<lambda>commands. Inl (Exn ''ReadTimeout'' ''Pattern not detected'')),
      exit_raises = None\<rparr>"

definition hanging :: connect_handler where
  "hanging info = Inr hanging_conn"

section \<open>Splitting and stripping\<close>

text \<open>
  What the two string methods of the formatter do: joining the pieces of a split with the
  separator gives the text back and no piece holds the separator; a stripped line is the
  line without a run of whitespace at each end, and it neither starts nor ends with
  whitespace.
\<close>

lemma py_split_not_Nil: "py_split s sep \<noteq> []"
  by (induction s) (auto split: list.splits)

lemma py_join_Cons: "xs \<noteq> [] \<Longrightarrow> py_join sep (x # xs) = x @ sep @ py_join sep xs"
  by (cases xs) simp_all

lemma py_join_split: "py_join [sep] (py_split s sep) = s"
proof (induction s)
  case Nil
  show ?case by simp
next
  case (Cons c cs)
  show ?case
  proof (cases "c = sep")
    case True
    with Cons show ?thesis by (simp add: py_join_Cons py_split_not_Nil)
  next
    case False
    obtain piece pieces where p: "py_split cs sep = piece # pieces"
      using py_split_not_Nil [of cs sep] by (cases "py_split cs sep") auto
    have "py_join [sep] ((c # piece) # pieces) = c # py_join [sep] (piece # pieces)"
      by (cases pieces) simp_all
    with Cons False p show ?thesis by simp
  qed
qed

lemma py_split_no_sep: "piece \<in> set (py_split s sep) \<Longrightarrow> sep \<notin> set piece"
proof (induction s arbitrary: piece)
  case Nil
  then show ?case by simp
next
  case (Cons c cs)
  then show ?case
    by (auto split: if_splits list.splits)
qed

lemma all_dropWhile_iff: "(\<forall>x \<in> set (dropWhile P xs). P x) \<longleftrightarrow> (\<forall>x \<in> set xs. P x)"
proof
  assume a: "\<forall>x \<in> set (dropWhile P xs). P x"
  have "dropWhile P xs = []"
  proof (rule ccontr)
    assume ne: "dropWhile P xs \<noteq> []"
    then have "\<not> P (hd (dropWhile P xs))" by (rule hd_dropWhile)
    moreover have "hd (dropWhile P xs) \<in> set (dropWhile P xs)" using ne by simp
    ultimately show False using a by blast
  qed
  then show "\<forall>x \<in> set xs. P x" by simp
next
  assume "\<forall>x \<in> set xs. P x"
  then show "\<forall>x \<in> set (dropWhile P xs). P x" by (auto dest: set_dropWhileD)
qed

lemma strip_eq_Nil_iff: "strip s = [] \<longleftrightarrow> (\<forall>c \<in> set s. is_space c)"
  by (simp add: strip_def lstrip_def rstrip_def all_dropWhile_iff)

lemma strip_parts:
  "\<exists>before after. s = before @ strip s @ after
     \<and> (\<forall>c \<in> set before. is_space c) \<and> (\<forall>c \<in> set after. is_space c)"
proof -
  let ?l = "dropWhile is_space s"
  have a: "s = takeWhile is_space s @ ?l" by simp
  have b: "rev ?l = takeWhile is_space (rev ?l) @ dropWhile is_space (rev ?l)" by simp
  have c: "?l = strip s @ rev (takeWhile is_space (rev ?l))"
    unfolding strip_def lstrip_def rstrip_def
    by (metis b rev_append rev_rev_ident)
  have "s = takeWhile is_space s @ strip s @ rev (takeWhile is_space (rev ?l))"
    using a c by metis
  moreover have "\<forall>c \<in> set (takeWhile is_space s). is_space c"
    by (auto dest: set_takeWhileD)
  moreover have "\<forall>c \<in> set (rev (takeWhile is_space (rev ?l))). is_space c"
    by (auto dest: set_takeWhileD)
  ultimately show ?thesis by blast
qed

lemma strip_ends:
  assumes "strip s \<noteq> []"
  shows "\<not> is_space (hd (strip s))" and "\<not> is_space (last (strip s))"
proof -
  let ?l = "dropWhile is_space s"
  let ?r = "dropWhile is_space (rev ?l)"
  have ne: "?r \<noteq> []" using assms by (simp add: strip_def lstrip_def rstrip_def)
  then have "\<not> is_space (hd ?r)" by (rule hd_dropWhile)
  then show "\<not> is_space (last (strip s))"
    using ne by (simp add: strip_def lstrip_def rstrip_def last_rev)
  have lne: "?l \<noteq> []" using ne by (cases "?l") simp_all
  then have h: "\<not> is_space (hd ?l)" by (rule hd_dropWhile)
  have "rev ?l = takeWhile is_space (rev ?l) @ ?r" by simp
  then have "?l = rev ?r @ rev (takeWhile is_space (rev ?l))"
    by (metis rev_append rev_rev_ident)
  then have "hd ?l = hd (rev ?r)" using ne by (metis hd_append2 rev_is_Nil_conv)
  with h show "\<not> is_space (hd (strip s))"
    by (simp add: strip_def lstrip_def rstrip_def)
qed

lemma lines_no_empty: "[] \<notin> set (lines s)"
  by (auto simp: lines_def)

lemma lines_blank: "lines s = map strip (filter (\<lambda>line. \<not> (\<forall>c \<in> set line. is_space c)) (py_split s CHR 0x0A))"
  by (simp add: lines_def strip_eq_Nil_iff)

section \<open>What the adapters and the handlers return\<close>

text \<open>
  Both adapters return a text on every path: the device's output, or the message of
  whichever exception ended the session, behind the prefix \<^verbatim>\<open>Netmiko Error: \<close>.
\<close>

lemma send_netmiko_request_cases:
  "send_netmiko_request ConnectHandler info command =
     Inr (case ConnectHandler info of
            Inl e \<Rightarrow> ''Netmiko Error: '' @ exn_str e
          | Inr conn \<Rightarrow>
              (case exit_raises conn of
                 Some e \<Rightarrow> ''Netmiko Error: '' @ exn_str e
               | None \<Rightarrow>
                   (case send_command conn command of
                      Inl e \<Rightarrow> ''Netmiko Error: '' @ exn_str e
                    | Inr output \<Rightarrow> output)))"
  by (simp add: send_netmiko_request_def try_except_def with_conn_def bind_exn_def
           split: sum.splits option.splits)

lemma send_netmiko_config_cases:
  "send_netmiko_config ConnectHandler info commands =
     Inr (case ConnectHandler info of
            Inl e \<Rightarrow> ''Netmiko Error: '' @ exn_str e
          | Inr conn \<Rightarrow>
              (case exit_raises conn of
                 Some e \<Rightarrow> ''Netmiko Error: '' @ exn_str e
               | None \<Rightarrow>
                   (case send_config_set conn commands of
                      Inl e \<Rightarrow> ''Netmiko Error: '' @ exn_str e
                    | Inr output \<Rightarrow> output)))"
  by (simp add: send_netmiko_config_def try_except_def with_conn_def bind_exn_def
           split: sum.splits option.splits)

lemma device_interfaces_ok:
  "send_netmiko_request ConnectHandler device_info (PStr ''show ip interface brief'') = Inr text \<Longrightarrow>
   device_interfaces ConnectHandler =
     Inr (jsonify (PDict [(''netmiko_response'', PList (map PStr (lines text)))]))"
  by (simp add: device_interfaces_def try_except_def bind_exn_def)

lemma network_interaction_dict:
  "send_netmiko_request ConnectHandler device_info
      (case map_of kvs ''command'' of None \<Rightarrow> PNone | Some v \<Rightarrow> v) = Inr text \<Longrightarrow>
   network_interaction ConnectHandler (Inr (PDict kvs)) =
     Inr (jsonify (PDict [(''netmiko_response'', PList (map PStr (lines text)))]))"
  by (simp add: network_interaction_def try_except_def bind_exn_def)

lemma configure_loopback_dict:
  "send_netmiko_config ConnectHandler device_info
      (config_commands (case map_of kvs ''loopback_number'' of None \<Rightarrow> PNone | Some v \<Rightarrow> v)
                       (case map_of kvs ''ip_address'' of None \<Rightarrow> PNone | Some v \<Rightarrow> v)) = Inr text \<Longrightarrow>
   configure_loopback ConnectHandler (Inr (PDict kvs)) =
     Inr (jsonify (PDict [(''netmiko_response'', PList (map PStr (lines text)))]))"
  by (simp add: configure_loopback_def try_except_def bind_exn_def)

lemma delete_loopback_dict:
  "send_netmiko_config ConnectHandler device_info
      (delete_commands (case map_of kvs ''loopback_number'' of None \<Rightarrow> PNone | Some v \<Rightarrow> v)) = Inr text \<Longrightarrow>
   delete_loopback ConnectHandler (Inr (PDict kvs)) =
     Inr (jsonify (PDict [(''netmiko_response'', PList (map PStr (lines text)))]))"
  by (simp add: delete_loopback_def try_except_def bind_exn_def)

lemma py_get_not_dict: "type_name v \<noteq> ''dict'' \<Longrightarrow> py_get v key = Inl (attribute_error v ''get'')"
  by (cases v) simp_all

lemma network_interaction_not_dict:
  "type_name v \<noteq> ''dict'' \<Longrightarrow>
   network_interaction ConnectHandler (Inr v) = Inr (error_response (attribute_error v ''get''))"
  by (simp add: network_interaction_def try_except_def bind_exn_def py_get_not_dict)

lemma network_interaction_no_json:
  "network_interaction ConnectHandler (Inl e) = Inr (error_response e)"
  by (simp add: network_interaction_def try_except_def bind_exn_def)

lemma format_response_not_str:
  "type_name v \<noteq> ''str'' \<Longrightarrow> format_response v = Inl (attribute_error v ''split'')"
  by (cases v) simp_all

lemma configure_loopback_not_dict:
  "type_name v \<noteq> ''dict'' \<Longrightarrow>
   configure_loopback ConnectHandler (Inr v) = Inr (error_response (attribute_error v ''get''))"
  by (simp add: configure_loopback_def try_except_def bind_exn_def py_get_not_dict)

lemma delete_loopback_not_dict:
  "type_name v \<noteq> ''dict'' \<Longrightarrow>
   delete_loopback ConnectHandler (Inr v) = Inr (error_response (attribute_error v ''get''))"
  by (simp add: delete_loopback_def try_except_def bind_exn_def py_get_not_dict)

lemma configure_loopback_no_json:
  "configure_loopback ConnectHandler (Inl e) = Inr (error_response e)"
  by (simp add: configure_loopback_def try_except_def bind_exn_def)

lemma delete_loopback_no_json:
  "delete_loopback ConnectHandler (Inl e) = Inr (error_response e)"
  by (simp add: delete_loopback_def try_except_def bind_exn_def)

text \<open>
  Each handler ends in one of two ways: with the formatted lines of the adapter's text,
  or with the message of an exception raised before the adapter was reached. No
  exception leaves a handler.
\<close>

lemma handler_shapes:
  "(\<exists>text. network_interaction ConnectHandler request_json =
        Inr (jsonify (PDict [(''netmiko_response'', PList (map PStr (lines text)))])))
   \<or> (\<exists>e. network_interaction ConnectHandler request_json = Inr (error_response e))"
  "(\<exists>text. configure_loopback ConnectHandler request_json =
        Inr (jsonify (PDict [(''netmiko_response'', PList (map PStr (lines text)))])))
   \<or> (\<exists>e. configure_loopback ConnectHandler request_json = Inr (error_response e))"
  "(\<exists>text. delete_loopback ConnectHandler request_json =
        Inr (jsonify (PDict [(''netmiko_response'', PList (map PStr (lines text)))])))
   \<or> (\<exists>e. delete_loopback ConnectHandler request_json = Inr (error_response e))"
  "(\<exists>text. device_interfaces ConnectHandler =
        Inr (jsonify (PDict [(''netmiko_response'', PList (map PStr (lines text)))])))"
proof -
  show "(\<exists>text. device_interfaces ConnectHandler =
        Inr (jsonify (PDict [(''netmiko_response'', PList (map PStr (lines text)))])))"
    using device_interfaces_ok send_netmiko_request_cases by blast
  show "(\<exists>text. network_interaction ConnectHandler request_json =
        Inr (jsonify (PDict [(''netmiko_response'', PList (map PStr (lines text)))])))
   \<or> (\<exists>e. network_interaction ConnectHandler request_json = Inr (error_response e))"
  proof (cases request_json)
    case (Inl e)
    then show ?thesis using network_interaction_no_json by blast
  next
    case (Inr v)
    show ?thesis
    proof (cases "type_name v = ''dict''")
      case True
      then obtain kvs where "v = PDict kvs" by (cases v) simp_all
      with Inr show ?thesis
        using network_interaction_dict send_netmiko_request_cases by blast
    next
      case False
      with Inr show ?thesis using network_interaction_not_dict by blast
    qed
  qed
  show "(\<exists>text. configure_loopback ConnectHandler request_json =
        Inr (jsonify (PDict [(''netmiko_response'', PList (map PStr (lines text)))])))
   \<or> (\<exists>e. configure_loopback ConnectHandler request_json = Inr (error_response e))"
  proof (cases request_json)
    case (Inl e)
    then show ?thesis using configure_loopback_no_json by blast
  next
    case (Inr v)
    show ?thesis
    proof (cases "type_name v = ''dict''")
      case True
      then obtain kvs where "v = PDict kvs" by (cases v) simp_all
      with Inr show ?thesis
        using configure_loopback_dict send_netmiko_config_cases by blast
    next
      case False
      with Inr show ?thesis using configure_loopback_not_dict by blast
    qed
  qed
  show "(\<exists>text. delete_loopback ConnectHandler request_json =
        Inr (jsonify (PDict [(''netmiko_response'', PList (map PStr (lines text)))])))
   \<or> (\<exists>e. delete_loopback ConnectHandler request_json = Inr (error_response e))"
  proof (cases request_json)
    case (Inl e)
    then show ?thesis using delete_loopback_no_json by blast
  next
    case (Inr v)
    show ?thesis
    proof (cases "type_name v = ''dict''")
      case True
      then obtain kvs where "v = PDict kvs" by (cases v) simp_all
      with Inr show ?thesis
        using delete_loopback_dict send_netmiko_config_cases by blast
    next
      case False
      with Inr show ?thesis using delete_loopback_not_dict by blast
    qed
  qed
qed

lemma handlers_return:
  "\<exists>r. network_interaction ConnectHandler request_json = Inr r"
  "\<exists>r. configure_loopback ConnectHandler request_json = Inr r"
  "\<exists>r. delete_loopback ConnectHandler request_json = Inr r"
  "\<exists>r. device_interfaces ConnectHandler = Inr r"
  using handler_shapes(1-3) [of ConnectHandler request_json] handler_shapes(4) [of ConnectHandler]
  by blast+

section \<open>The claims\<close>

text \<open>
  C4. The adapters catch every failure of a session and return it as text: both return a
  text for every device and every argument; when the connection (which includes
  authentication) fails with \<open>e\<close> the text is \<^verbatim>\<open>Netmiko Error: \<close> followed by
  \<open>str(e)\<close>, and so it is when the command or the command list fails on an open
  session. Hence every handler returns a response for every request.
\<close>

theorem adapter_failure_becomes_text:
  "(\<exists>text. send_netmiko_request ConnectHandler info command = Inr text)
   \<and> (\<exists>text. send_netmiko_config ConnectHandler info commands = Inr text)
   \<and> (ConnectHandler info = Inl e \<longrightarrow>
        send_netmiko_request ConnectHandler info command = Inr (''Netmiko Error: '' @ exn_str e)
        \<and> send_netmiko_config ConnectHandler info commands = Inr (''Netmiko Error: '' @ exn_str e))
   \<and> (ConnectHandler info = Inr conn \<and> exit_raises conn = None
        \<and> send_command conn command = Inl e \<longrightarrow>
        send_netmiko_request ConnectHandler info command = Inr (''Netmiko Error: '' @ exn_str e))
   \<and> (ConnectHandler info = Inr conn \<and> exit_raises conn = None
        \<and> send_config_set conn commands = Inl e \<longrightarrow>
        send_netmiko_config ConnectHandler info commands = Inr (''Netmiko Error: '' @ exn_str e))
   \<and> (\<exists>r. network_interaction ConnectHandler request_json = Inr r)
   \<and> (\<exists>r. configure_loopback ConnectHandler request_json = Inr r)
   \<and> (\<exists>r. delete_loopback ConnectHandler request_json = Inr r)
   \<and> (\<exists>r. device_interfaces ConnectHandler = Inr r)"
  by (simp add: send_netmiko_request_cases send_netmiko_config_cases handlers_return)

theorem adapter_failure_becomes_text_witness:
  "unreachable device_info = Inl (Exn ''NetmikoTimeoutException'' ''TCP connection to device failed.'')
   \<and> send_netmiko_request unreachable device_info (PStr ''show version'')
       = Inr ''Netmiko Error: TCP connection to device failed.''
   \<and> send_netmiko_config unreachable device_info [''commit'']
       = Inr ''Netmiko Error: TCP connection to device failed.''
   \<and> hanging device_info = Inr hanging_conn \<and> exit_raises hanging_conn = None
   \<and> send_command hanging_conn (PStr ''show version'') = Inl (Exn ''ReadTimeout'' ''Pattern not detected'')
   \<and> send_config_set hanging_conn [''commit''] = Inl (Exn ''ReadTimeout'' ''Pattern not detected'')
   \<and> send_netmiko_request hanging device_info (PStr ''show version'')
       = Inr ''Netmiko Error: Pattern not detected''
   \<and> send_netmiko_config hanging device_info [''commit'']
       = Inr ''Netmiko Error: Pattern not detected''"
  using adapter_failure_becomes_text
          [of unreachable device_info "PStr ''show version''" "[''commit'']"
              "Exn ''NetmikoTimeoutException'' ''TCP connection to device failed.''"]
        adapter_failure_becomes_text
          [of hanging device_info "PStr ''show version''" "[''commit'']"
              "Exn ''ReadTimeout'' ''Pattern not detected''" hanging_conn]
  by (simp add: unreachable_def hanging_def hanging_conn_def)

text \<open>
  C1, as the claim states it, fails: with a host that cannot be reached, the session
  raises inside the adapter, which returns the message as text, and
  \<^verbatim>\<open>/device_interfaces\<close> answers 200 with that text under \<^verbatim>\<open>netmiko_response\<close>.
\<close>

theorem unreachable_device_answers_200:
  "unreachable device_info
     = Inl (Exn ''NetmikoTimeoutException'' ''TCP connection to device failed.'')
   \<and> device_interfaces unreachable
     = Inr \<lparr>status = 200,
            body = PDict [(''netmiko_response'',
                           PList [PStr ''Netmiko Error: TCP connection to device failed.''])]\<rparr>
   \<and> status \<lparr>status = 200,
            body = PDict [(''netmiko_response'',
                           PList [PStr ''Netmiko Error: TCP connection to device failed.''])]\<rparr>
     \<noteq> 500"
  by (simp add: unreachable_def device_interfaces_def send_netmiko_request_def with_conn_def
        try_except_def bind_exn_def jsonify_def lines_def strip_def lstrip_def rstrip_def
        is_space_def)

text \<open>
  C1, amended. When opening the SSH session raises \<open>e\<close>, each of the four endpoints
  answers 200, and the body is the single field \<^verbatim>\<open>netmiko_response\<close> holding the lines
  of \<^verbatim>\<open>Netmiko Error: \<close> followed by \<open>str(e)\<close>; for the three endpoints that read a
  body this is so for every body that is a JSON object.
\<close>

theorem ssh_failure_answers_200:
  assumes "ConnectHandler device_info = Inl e"
  shows "device_interfaces ConnectHandler
           = Inr \<lparr>status = 200,
                  body = PDict [(''netmiko_response'',
                                 PList (map PStr (lines (''Netmiko Error: '' @ exn_str e))))]\<rparr>
         \<and> network_interaction ConnectHandler (Inr (PDict kvs))
           = Inr \<lparr>status = 200,
                  body = PDict [(''netmiko_response'',
                                 PList (map PStr (lines (''Netmiko Error: '' @ exn_str e))))]\<rparr>
         \<and> configure_loopback ConnectHandler (Inr (PDict kvs))
           = Inr \<lparr>status = 200,
                  body = PDict [(''netmiko_response'',
                                 PList (map PStr (lines (''Netmiko Error: '' @ exn_str e))))]\<rparr>
         \<and> delete_loopback ConnectHandler (Inr (PDict kvs))
           = Inr \<lparr>status = 200,
                  body = PDict [(''netmiko_response'',
                                 PList (map PStr (lines (''Netmiko Error: '' @ exn_str e))))]\<rparr>"
proof -
  have request: "send_netmiko_request ConnectHandler device_info command
                   = Inr (''Netmiko Error: '' @ exn_str e)" for command
    using assms by (simp add: send_netmiko_request_cases)
  have config: "send_netmiko_config ConnectHandler device_info commands
                  = Inr (''Netmiko Error: '' @ exn_str e)" for commands
    using assms by (simp add: send_netmiko_config_cases)
  show ?thesis
    using device_interfaces_ok [OF request] network_interaction_dict [OF request]
      configure_loopback_dict [OF config] delete_loopback_dict [OF config]
    by (simp add: jsonify_def)
qed

theorem ssh_failure_answers_200_witness:
  "unreachable device_info
     = Inl (Exn ''NetmikoTimeoutException'' ''TCP connection to device failed.'')
   \<and> network_interaction unreachable (Inr (PDict [(''command'', PStr ''show version'')]))
     = Inr \<lparr>status = 200,
            body = PDict [(''netmiko_response'',
                           PList [PStr ''Netmiko Error: TCP connection to device failed.''])]\<rparr>
   \<and> delete_loopback unreachable (Inr (PDict [(''loopback_number'', PInt 5)]))
     = Inr \<lparr>status = 200,
            body = PDict [(''netmiko_response'',
                           PList [PStr ''Netmiko Error: TCP connection to device failed.''])]\<rparr>"
proof -
  have down: "unreachable device_info
     = Inl (Exn ''NetmikoTimeoutException'' ''TCP connection to device failed.'')"
    by (simp add: unreachable_def)
  have msg: "lines ''Netmiko Error: TCP connection to device failed.''
     = [''Netmiko Error: TCP connection to device failed.'']"
    by (simp add: lines_def strip_def lstrip_def rstrip_def is_space_def)
  show ?thesis
    using ssh_failure_answers_200
            [of unreachable "Exn ''NetmikoTimeoutException'' ''TCP connection to device failed.''"
                "[(''command'', PStr ''show version'')]", OF down]
          ssh_failure_answers_200
            [of unreachable "Exn ''NetmikoTimeoutException'' ''TCP connection to device failed.''"
                "[(''loopback_number'', PInt 5)]", OF down]
          down msg
    by simp
qed

text \<open>
  C2, as the claim states it, fails: a successful \<^verbatim>\<open>/network_interaction\<close> stores its
  payload under \<^verbatim>\<open>netmiko_response\<close>, and the body has no field \<^verbatim>\<open>response\<close>.
\<close>

theorem success_field_is_not_response:
  "network_interaction router (Inr (PDict [(''command'', PStr ''show version'')]))
     = Inr \<lparr>status = 200,
            body = PDict [(''netmiko_response'', PList [PStr ''% echo show version''])]\<rparr>
   \<and> map_of [(''netmiko_response'', PList [PStr ''% echo show version''])] ''response'' = None"
  by (simp add: router_def router_conn_def network_interaction_def send_netmiko_request_def
        with_conn_def try_except_def bind_exn_def jsonify_def lines_def strip_def lstrip_def
        rstrip_def is_space_def)

text \<open>
  C2, amended. Whenever one of the four endpoints answers 200, the body is a JSON object
  with the single field \<^verbatim>\<open>netmiko_response\<close>, which holds a list of strings.
\<close>

theorem success_body_shape:
  assumes "network_interaction ConnectHandler request_json = Inr r
           \<or> configure_loopback ConnectHandler request_json = Inr r
           \<or> delete_loopback ConnectHandler request_json = Inr r
           \<or> device_interfaces ConnectHandler = Inr r"
    and "status r = 200"
  shows "\<exists>ls. body r = PDict [(''netmiko_response'', PList (map PStr ls))]"
proof -
  have "(\<exists>text. r = jsonify (PDict [(''netmiko_response'', PList (map PStr (lines text)))]))
        \<or> (\<exists>e. r = error_response e)"
    using assms(1) handler_shapes(1-3) [of ConnectHandler request_json]
      handler_shapes(4) [of ConnectHandler]
    by (metis sum.inject(2))
  moreover have "status (error_response e) \<noteq> 200" for e
    by (simp add: error_response_def jsonify_def)
  ultimately obtain out where
    "r = jsonify (PDict [(''netmiko_response'', PList (map PStr (lines out)))])"
    using assms(2) by blast
  then show ?thesis by (auto simp: jsonify_def)
qed

theorem success_body_shape_witness:
  "network_interaction router (Inr (PDict [(''command'', PStr ''show version'')]))
     = Inr \<lparr>status = 200,
            body = PDict [(''netmiko_response'', PList [PStr ''% echo show version''])]\<rparr>
   \<and> (\<exists>ls. PDict [(''netmiko_response'', PList [PStr ''% echo show version''])]
              = PDict [(''netmiko_response'', PList (map PStr ls))])"
proof -
  have run: "network_interaction router (Inr (PDict [(''command'', PStr ''show version'')]))
     = Inr \<lparr>status = 200,
            body = PDict [(''netmiko_response'', PList [PStr ''% echo show version''])]\<rparr>"
    by (simp add: router_def router_conn_def network_interaction_def send_netmiko_request_def
        with_conn_def try_except_def bind_exn_def jsonify_def lines_def strip_def lstrip_def
        rstrip_def is_space_def)
  have "\<exists>ls. body \<lparr>status = 200,
            body = PDict [(''netmiko_response'', PList [PStr ''% echo show version''])]\<rparr>
          = PDict [(''netmiko_response'', PList (map PStr ls))]"
    by (rule success_body_shape [of router "Inr (PDict [(''command'', PStr ''show version'')])"])
       (simp_all add: run)
  with run show ?thesis by simp
qed

text \<open>
  C3, as the claim states it, fails: for the body \<^verbatim>\<open>{}\<close> the handler reads the command
  as \<^verbatim>\<open>None\<close> and hands it to the adapter; the device's \<^verbatim>\<open>send_command\<close> raises on
  it, the adapter returns the message as text, and the endpoint answers 200.
\<close>

theorem missing_command_is_not_500:
  "network_interaction router (Inr (PDict []))
     = Inr \<lparr>status = 200,
            body = PDict [(''netmiko_response'',
                           PList [PStr (''Netmiko Error: ''
                                        @ exn_str (attribute_error PNone ''rstrip''))])]\<rparr>
   \<and> exn_str (attribute_error PNone ''rstrip'')
     = [CHR 0x27] @ ''NoneType'' @ [CHR 0x27] @ '' object has no attribute ''
       @ [CHR 0x27] @ ''rstrip'' @ [CHR 0x27]"
  by (simp add: router_def router_conn_def network_interaction_def send_netmiko_request_def
        with_conn_def try_except_def bind_exn_def jsonify_def lines_def strip_def lstrip_def
        rstrip_def is_space_def attribute_error_def)

text \<open>
  C3, amended. A POST to \<^verbatim>\<open>/network_interaction\<close> whose body is a JSON object without
  the field \<^verbatim>\<open>command\<close> answers 200: the command \<^verbatim>\<open>None\<close> goes to the adapter and
  the lines of the adapter's text come back under \<^verbatim>\<open>netmiko_response\<close>. A body that
  is JSON but not an object has no \<^verbatim>\<open>get\<close>, and the answer is 500 with the message of
  the \<^verbatim>\<open>AttributeError\<close>. For every request the handler returns a response.
\<close>

theorem missing_command_answers_200:
  "(map_of kvs ''command'' = None \<longrightarrow>
      (\<exists>out. send_netmiko_request ConnectHandler device_info PNone = Inr out
         \<and> network_interaction ConnectHandler (Inr (PDict kvs))
           = Inr \<lparr>status = 200,
                  body = PDict [(''netmiko_response'', PList (map PStr (lines out)))]\<rparr>))
   \<and> (type_name v \<noteq> ''dict'' \<longrightarrow>
        network_interaction ConnectHandler (Inr v)
          = Inr \<lparr>status = 500,
                 body = PDict [(''error'', PStr (exn_str (attribute_error v ''get'')))]\<rparr>)
   \<and> (\<exists>r. network_interaction ConnectHandler request_json = Inr r)"
proof (intro conjI impI)
  assume missing: "map_of kvs ''command'' = None"
  obtain out where out: "send_netmiko_request ConnectHandler device_info PNone = Inr out"
    using send_netmiko_request_cases by blast
  then have "network_interaction ConnectHandler (Inr (PDict kvs))
           = Inr \<lparr>status = 200,
                  body = PDict [(''netmiko_response'', PList (map PStr (lines out)))]\<rparr>"
    using network_interaction_dict [of ConnectHandler kvs out] missing
    by (simp add: jsonify_def)
  with out show "\<exists>out. send_netmiko_request ConnectHandler device_info PNone = Inr out
         \<and> network_interaction ConnectHandler (Inr (PDict kvs))
           = Inr \<lparr>status = 200,
                  body = PDict [(''netmiko_response'', PList (map PStr (lines out)))]\<rparr>"
    by blast
next
  assume "type_name v \<noteq> ''dict''"
  then show "network_interaction ConnectHandler (Inr v)
          = Inr \<lparr>status = 500,
                 body = PDict [(''error'', PStr (exn_str (attribute_error v ''get'')))]\<rparr>"
    by (simp add: network_interaction_not_dict error_response_def jsonify_def)
next
  show "\<exists>r. network_interaction ConnectHandler request_json = Inr r"
    by (rule handlers_return)
qed

theorem missing_command_answers_200_witness:
  "map_of [(''cmd'', PStr ''show version'')] ''command'' = None
   \<and> send_netmiko_request hanging device_info PNone = Inr ''Netmiko Error: Pattern not detected''
   \<and> network_interaction hanging (Inr (PDict [(''cmd'', PStr ''show version'')]))
     = Inr \<lparr>status = 200,
            body = PDict [(''netmiko_response'',
                           PList [PStr ''Netmiko Error: Pattern not detected''])]\<rparr>
   \<and> type_name (PList []) \<noteq> ''dict''
   \<and> network_interaction hanging (Inr (PList []))
     = Inr \<lparr>status = 500,
            body = PDict [(''error'', PStr (exn_str (attribute_error (PList []) ''get'')))]\<rparr>"
proof -
  have adapter: "send_netmiko_request hanging device_info PNone
                   = Inr ''Netmiko Error: Pattern not detected''"
    by (simp add: send_netmiko_request_cases hanging_def hanging_conn_def)
  have msg: "lines ''Netmiko Error: Pattern not detected''
               = [''Netmiko Error: Pattern not detected'']"
    by (simp add: lines_def strip_def lstrip_def rstrip_def is_space_def)
  show ?thesis
    using missing_command_answers_200
            [of "[(''cmd'', PStr ''show version'')]" hanging "PList []"] adapter msg
    by simp
qed

text \<open>
  C5. For an integer \<open>n\<close> and a string \<open>a\<close>, the list built by
  \<^verbatim>\<open>/configure_loopback\<close> is \<^verbatim>\<open>interface Loopback\<close> followed by the decimal text of
  \<open>n\<close>, \<^verbatim>\<open>ip address \<close> followed by \<open>a\<close>, \<^verbatim>\<open>commit\<close>, \<^verbatim>\<open>exit\<close>, in this
  order; for 5 and \<^verbatim>\<open>10.0.0.1\<close> it is the list of the example. For a body with these
  two fields the handler hands exactly this list to the adapter and answers with the
  lines of the adapter's text.
\<close>

theorem configure_loopback_commands:
  "config_commands (PInt n) (PStr a)
     = [''interface Loopback'' @ str_int n, ''ip address '' @ a, ''commit'', ''exit'']
   \<and> config_commands (PInt 5) (PStr ''10.0.0.1'')
     = [''interface Loopback5'', ''ip address 10.0.0.1'', ''commit'', ''exit'']
   \<and> (map_of kvs ''loopback_number'' = Some (PInt n)
        \<and> map_of kvs ''ip_address'' = Some (PStr a) \<longrightarrow>
        (\<exists>out. send_netmiko_config ConnectHandler device_info
                  [''interface Loopback'' @ str_int n, ''ip address '' @ a,
                   ''commit'', ''exit''] = Inr out
           \<and> configure_loopback ConnectHandler (Inr (PDict kvs))
             = Inr \<lparr>status = 200,
                    body = PDict [(''netmiko_response'', PList (map PStr (lines out)))]\<rparr>))"
proof (intro conjI impI)
  show general: "config_commands (PInt n) (PStr a)
     = [''interface Loopback'' @ str_int n, ''ip address '' @ a, ''commit'', ''exit'']"
    by (simp add: config_commands_def)
  show "config_commands (PInt 5) (PStr ''10.0.0.1'')
     = [''interface Loopback5'', ''ip address 10.0.0.1'', ''commit'', ''exit'']"
    by (simp add: config_commands_def str_int_def str_nat.simps)
  assume fields: "map_of kvs ''loopback_number'' = Some (PInt n)
        \<and> map_of kvs ''ip_address'' = Some (PStr a)"
  obtain out where out: "send_netmiko_config ConnectHandler device_info
                  [''interface Loopback'' @ str_int n, ''ip address '' @ a,
                   ''commit'', ''exit''] = Inr out"
    using send_netmiko_config_cases by blast
  have "configure_loopback ConnectHandler (Inr (PDict kvs))
             = Inr \<lparr>status = 200,
                    body = PDict [(''netmiko_response'', PList (map PStr (lines out)))]\<rparr>"
    using configure_loopback_dict [of ConnectHandler kvs out] fields out general
    by (simp add: jsonify_def)
  with out show "\<exists>out. send_netmiko_config ConnectHandler device_info
                  [''interface Loopback'' @ str_int n, ''ip address '' @ a,
                   ''commit'', ''exit''] = Inr out
           \<and> configure_loopback ConnectHandler (Inr (PDict kvs))
             = Inr \<lparr>status = 200,
                    body = PDict [(''netmiko_response'', PList (map PStr (lines out)))]\<rparr>"
    by blast
qed

theorem configure_loopback_commands_witness:
  "map_of [(''loopback_number'', PInt 5), (''ip_address'', PStr ''10.0.0.1'')] ''loopback_number''
     = Some (PInt 5)
   \<and> map_of [(''loopback_number'', PInt 5), (''ip_address'', PStr ''10.0.0.1'')] ''ip_address''
     = Some (PStr ''10.0.0.1'')
   \<and> send_netmiko_config router device_info
        [''interface Loopback5'', ''ip address 10.0.0.1'', ''commit'', ''exit'']
     = Inr ''interface Loopback5\<newline>ip address 10.0.0.1\<newline>commit\<newline>exit''
   \<and> configure_loopback router
        (Inr (PDict [(''loopback_number'', PInt 5), (''ip_address'', PStr ''10.0.0.1'')]))
     = Inr \<lparr>status = 200,
            body = PDict [(''netmiko_response'',
                           PList [PStr ''interface Loopback5'', PStr ''ip address 10.0.0.1'',
                                  PStr ''commit'', PStr ''exit''])]\<rparr>"
proof -
  have five: "str_int 5 = ''5''"
    by (simp add: str_int_def str_nat.simps)
  have adapter: "send_netmiko_config router device_info
        [''interface Loopback5'', ''ip address 10.0.0.1'', ''commit'', ''exit'']
     = Inr ''interface Loopback5\<newline>ip address 10.0.0.1\<newline>commit\<newline>exit''"
    by (simp add: send_netmiko_config_cases router_def router_conn_def)
  have echoed: "lines ''interface Loopback5\<newline>ip address 10.0.0.1\<newline>commit\<newline>exit''
     = [''interface Loopback5'', ''ip address 10.0.0.1'', ''commit'', ''exit'']"
    by (simp add: lines_def strip_def lstrip_def rstrip_def is_space_def)
  show ?thesis
    using configure_loopback_commands
            [of 5 "''10.0.0.1''"
                "[(''loopback_number'', PInt 5), (''ip_address'', PStr ''10.0.0.1'')]" router]
          five adapter echoed
    by simp
qed

text \<open>
  C6. For an integer \<open>n\<close>, the list built by \<^verbatim>\<open>/delete_loopback\<close> is
  \<^verbatim>\<open>no interface Loopback\<close> followed by the decimal text of \<open>n\<close>, \<^verbatim>\<open>commit\<close>,
  \<^verbatim>\<open>exit\<close>, in this order; for 5 it is the list of the example. For a body with this
  field the handler hands exactly this list to the adapter and answers with the lines of
  the adapter's text.
\<close>

theorem delete_loopback_commands:
  "delete_commands (PInt n) = [''no interface Loopback'' @ str_int n, ''commit'', ''exit'']
   \<and> delete_commands (PInt 5) = [''no interface Loopback5'', ''commit'', ''exit'']
   \<and> (map_of kvs ''loopback_number'' = Some (PInt n) \<longrightarrow>
        (\<exists>out. send_netmiko_config ConnectHandler device_info
                  [''no interface Loopback'' @ str_int n, ''commit'', ''exit''] = Inr out
           \<and> delete_loopback ConnectHandler (Inr (PDict kvs))
             = Inr \<lparr>status = 200,
                    body = PDict [(''netmiko_response'', PList (map PStr (lines out)))]\<rparr>))"
proof (intro conjI impI)
  show general: "delete_commands (PInt n)
     = [''no interface Loopback'' @ str_int n, ''commit'', ''exit'']"
    by (simp add: delete_commands_def)
  show "delete_commands (PInt 5) = [''no interface Loopback5'', ''commit'', ''exit'']"
    by (simp add: delete_commands_def str_int_def str_nat.simps)
  assume field: "map_of kvs ''loopback_number'' = Some (PInt n)"
  obtain out where out: "send_netmiko_config ConnectHandler device_info
                  [''no interface Loopback'' @ str_int n, ''commit'', ''exit''] = Inr out"
    using send_netmiko_config_cases by blast
  have "delete_loopback ConnectHandler (Inr (PDict kvs))
             = Inr \<lparr>status = 200,
                    body = PDict [(''netmiko_response'', PList (map PStr (lines out)))]\<rparr>"
    using delete_loopback_dict [of ConnectHandler kvs out] field out general
    by (simp add: jsonify_def)
  with out show "\<exists>out. send_netmiko_config ConnectHandler device_info
                  [''no interface Loopback'' @ str_int n, ''commit'', ''exit''] = Inr out
           \<and> delete_loopback ConnectHandler (Inr (PDict kvs))
             = Inr \<lparr>status = 200,
                    body = PDict [(''netmiko_response'', PList (map PStr (lines out)))]\<rparr>"
    by blast
qed

theorem delete_loopback_commands_witness:
  "map_of [(''loopback_number'', PInt 5)] ''loopback_number'' = Some (PInt 5)
   \<and> send_netmiko_config router device_info [''no interface Loopback5'', ''commit'', ''exit'']
     = Inr ''no interface Loopback5\<newline>commit\<newline>exit''
   \<and> delete_loopback router (Inr (PDict [(''loopback_number'', PInt 5)]))
     = Inr \<lparr>status = 200,
            body = PDict [(''netmiko_response'',
                           PList [PStr ''no interface Loopback5'', PStr ''commit'',
                                  PStr ''exit''])]\<rparr>"
proof -
  have five: "str_int 5 = ''5''"
    by (simp add: str_int_def str_nat.simps)
  have adapter: "send_netmiko_config router device_info
        [''no interface Loopback5'', ''commit'', ''exit'']
     = Inr ''no interface Loopback5\<newline>commit\<newline>exit''"
    by (simp add: send_netmiko_config_cases router_def router_conn_def)
  have echoed: "lines ''no interface Loopback5\<newline>commit\<newline>exit''
     = [''no interface Loopback5'', ''commit'', ''exit'']"
    by (simp add: lines_def strip_def lstrip_def rstrip_def is_space_def)
  show ?thesis
    using delete_loopback_commands [of 5 "[(''loopback_number'', PInt 5)]" router]
          five adapter echoed
    by simp
qed

text \<open>
  C10. A body that is a JSON object without \<^verbatim>\<open>loopback_number\<close>, or without
  \<^verbatim>\<open>ip_address\<close>, is not rejected: the missing field reads as \<^verbatim>\<open>None\<close> and is
  written into the command as the text \<^verbatim>\<open>None\<close>, the whole list goes to the adapter,
  and the endpoint answers 200 with the lines of the adapter's text. On a session that
  opens and closes without an exception, that text is what the device prints for the
  list.
\<close>

theorem missing_loopback_fields:
  "(map_of kvs ''loopback_number'' = None \<longrightarrow>
      (\<exists>ip_address out.
          py_get (PDict kvs) ''ip_address'' = Inr ip_address
        \<and> send_netmiko_config ConnectHandler device_info
             [''interface LoopbackNone'', ''ip address '' @ py_format ip_address,
              ''commit'', ''exit''] = Inr out
        \<and> configure_loopback ConnectHandler (Inr (PDict kvs))
          = Inr \<lparr>status = 200,
                 body = PDict [(''netmiko_response'', PList (map PStr (lines out)))]\<rparr>))
   \<and> (map_of kvs ''ip_address'' = None \<longrightarrow>
      (\<exists>loopback_number out.
          py_get (PDict kvs) ''loopback_number'' = Inr loopback_number
        \<and> send_netmiko_config ConnectHandler device_info
             [''interface Loopback'' @ py_format loopback_number, ''ip address None'',
              ''commit'', ''exit''] = Inr out
        \<and> configure_loopback ConnectHandler (Inr (PDict kvs))
          = Inr \<lparr>status = 200,
                 body = PDict [(''netmiko_response'', PList (map PStr (lines out)))]\<rparr>))
   \<and> (map_of kvs ''loopback_number'' = None \<longrightarrow>
      (\<exists>out.
          send_netmiko_config ConnectHandler device_info
             [''no interface LoopbackNone'', ''commit'', ''exit''] = Inr out
        \<and> delete_loopback ConnectHandler (Inr (PDict kvs))
          = Inr \<lparr>status = 200,
                 body = PDict [(''netmiko_response'', PList (map PStr (lines out)))]\<rparr>))
   \<and> (map_of kvs ''loopback_number'' = None \<and> map_of kvs ''ip_address'' = None
        \<and> ConnectHandler device_info = Inr conn \<and> exit_raises conn = None
        \<and> send_config_set conn
             [''interface LoopbackNone'', ''ip address None'', ''commit'', ''exit'']
            = Inr printed \<longrightarrow>
      configure_loopback ConnectHandler (Inr (PDict kvs))
        = Inr \<lparr>status = 200,
               body = PDict [(''netmiko_response'', PList (map PStr (lines printed)))]\<rparr>)"
proof (intro conjI impI)
  assume opened: "map_of kvs ''loopback_number'' = None \<and> map_of kvs ''ip_address'' = None
        \<and> ConnectHandler device_info = Inr conn \<and> exit_raises conn = None
        \<and> send_config_set conn
             [''interface LoopbackNone'', ''ip address None'', ''commit'', ''exit'']
            = Inr printed"
  then have "send_netmiko_config ConnectHandler device_info
               (config_commands PNone PNone) = Inr printed"
    by (simp add: send_netmiko_config_cases config_commands_def)
  then show "configure_loopback ConnectHandler (Inr (PDict kvs))
        = Inr \<lparr>status = 200,
               body = PDict [(''netmiko_response'', PList (map PStr (lines printed)))]\<rparr>"
    using configure_loopback_dict [of ConnectHandler kvs printed] opened
    by (simp add: jsonify_def)
next
  assume missing: "map_of kvs ''loopback_number'' = None"
  obtain ip_address where ip: "py_get (PDict kvs) ''ip_address'' = Inr ip_address"
    by simp
  obtain out where out: "send_netmiko_config ConnectHandler device_info
             [''interface LoopbackNone'', ''ip address '' @ py_format ip_address,
              ''commit'', ''exit''] = Inr out"
    using send_netmiko_config_cases by blast
  have "configure_loopback ConnectHandler (Inr (PDict kvs))
          = Inr \<lparr>status = 200,
                 body = PDict [(''netmiko_response'', PList (map PStr (lines out)))]\<rparr>"
    using configure_loopback_dict [of ConnectHandler kvs out] missing ip out
    by (simp add: jsonify_def config_commands_def)
  with ip out show "\<exists>ip_address out.
          py_get (PDict kvs) ''ip_address'' = Inr ip_address
        \<and> send_netmiko_config ConnectHandler device_info
             [''interface LoopbackNone'', ''ip address '' @ py_format ip_address,
              ''commit'', ''exit''] = Inr out
        \<and> configure_loopback ConnectHandler (Inr (PDict kvs))
          = Inr \<lparr>status = 200,
                 body = PDict [(''netmiko_response'', PList (map PStr (lines out)))]\<rparr>"
    by blast
next
  assume missing: "map_of kvs ''ip_address'' = None"
  obtain loopback_number where
    num: "py_get (PDict kvs) ''loopback_number'' = Inr loopback_number"
    by simp
  obtain out where out: "send_netmiko_config ConnectHandler device_info
             [''interface Loopback'' @ py_format loopback_number, ''ip address None'',
              ''commit'', ''exit''] = Inr out"
    using send_netmiko_config_cases by blast
  have "configure_loopback ConnectHandler (Inr (PDict kvs))
          = Inr \<lparr>status = 200,
                 body = PDict [(''netmiko_response'', PList (map PStr (lines out)))]\<rparr>"
    using configure_loopback_dict [of ConnectHandler kvs out] missing num out
    by (simp add: jsonify_def config_commands_def)
  with num out show "\<exists>loopback_number out.
          py_get (PDict kvs) ''loopback_number'' = Inr loopback_number
        \<and> send_netmiko_config ConnectHandler device_info
             [''interface Loopback'' @ py_format loopback_number, ''ip address None'',
              ''commit'', ''exit''] = Inr out
        \<and> configure_loopback ConnectHandler (Inr (PDict kvs))
          = Inr \<lparr>status = 200,
                 body = PDict [(''netmiko_response'', PList (map PStr (lines out)))]\<rparr>"
    by blast
next
  assume missing: "map_of kvs ''loopback_number'' = None"
  obtain out where out: "send_netmiko_config ConnectHandler device_info
             [''no interface LoopbackNone'', ''commit'', ''exit''] = Inr out"
    using send_netmiko_config_cases by blast
  have "delete_loopback ConnectHandler (Inr (PDict kvs))
          = Inr \<lparr>status = 200,
                 body = PDict [(''netmiko_response'', PList (map PStr (lines out)))]\<rparr>"
    using delete_loopback_dict [of ConnectHandler kvs out] missing out
    by (simp add: jsonify_def delete_commands_def)
  with out show "\<exists>out.
          send_netmiko_config ConnectHandler device_info
             [''no interface LoopbackNone'', ''commit'', ''exit''] = Inr out
        \<and> delete_loopback ConnectHandler (Inr (PDict kvs))
          = Inr \<lparr>status = 200,
                 body = PDict [(''netmiko_response'', PList (map PStr (lines out)))]\<rparr>"
    by blast
qed

theorem missing_loopback_fields_witness:
  "map_of [] ''loopback_number'' = (None :: pyval option)
   \<and> map_of [] ''ip_address'' = (None :: pyval option)
   \<and> router device_info = Inr router_conn \<and> exit_raises router_conn = None
   \<and> send_config_set router_conn
        [''interface LoopbackNone'', ''ip address None'', ''commit'', ''exit'']
     = Inr ''interface LoopbackNone\<newline>ip address None\<newline>commit\<newline>exit''
   \<and> send_netmiko_config router device_info
        [''interface LoopbackNone'', ''ip address None'', ''commit'', ''exit'']
     = Inr ''interface LoopbackNone\<newline>ip address None\<newline>commit\<newline>exit''
   \<and> configure_loopback router (Inr (PDict []))
     = Inr \<lparr>status = 200,
            body = PDict [(''netmiko_response'',
                           PList [PStr ''interface LoopbackNone'', PStr ''ip address None'',
                                  PStr ''commit'', PStr ''exit''])]\<rparr>
   \<and> send_netmiko_config router device_info [''no interface LoopbackNone'', ''commit'', ''exit'']
     = Inr ''no interface LoopbackNone\<newline>commit\<newline>exit''
   \<and> delete_loopback router (Inr (PDict []))
     = Inr \<lparr>status = 200,
            body = PDict [(''netmiko_response'',
                           PList [PStr ''no interface LoopbackNone'', PStr ''commit'',
                                  PStr ''exit''])]\<rparr>"
proof -
  have a1: "send_netmiko_config router device_info
        [''interface LoopbackNone'', ''ip address None'', ''commit'', ''exit'']
     = Inr ''interface LoopbackNone\<newline>ip address None\<newline>commit\<newline>exit''"
    by (simp add: send_netmiko_config_cases router_def router_conn_def)
  have a2: "send_netmiko_config router device_info
        [''no interface LoopbackNone'', ''commit'', ''exit'']
     = Inr ''no interface LoopbackNone\<newline>commit\<newline>exit''"
    by (simp add: send_netmiko_config_cases router_def router_conn_def)
  have l1: "lines ''interface LoopbackNone\<newline>ip address None\<newline>commit\<newline>exit''
     = [''interface LoopbackNone'', ''ip address None'', ''commit'', ''exit'']"
    by (simp add: lines_def strip_def lstrip_def rstrip_def is_space_def)
  have l2: "lines ''no interface LoopbackNone\<newline>commit\<newline>exit''
     = [''no interface LoopbackNone'', ''commit'', ''exit'']"
    by (simp add: lines_def strip_def lstrip_def rstrip_def is_space_def)
  show ?thesis
    using missing_loopback_fields
            [of "[]" router router_conn
                "''interface LoopbackNone\<newline>ip address None\<newline>commit\<newline>exit''"]
          a1 a2 l1 l2
    by (simp add: router_def router_conn_def)
qed

text \<open>
  C7. For every string, the formatter returns the lines of the text, split at line feeds,
  that are not blank, each stripped of the whitespace at its ends, in the order of the
  text. Here the lines are the pieces that, joined by line feeds, give the text back and
  hold no line feed themselves, and a stripped line is the line without a run of
  whitespace before it and one after it. The result holds no empty string, and none of
  its lines starts or ends with whitespace. The empty text and a text of blank lines give
  the empty list.
\<close>

theorem format_response_lines:
  "format_response (PStr raw) = Inr (PDict [(''netmiko_response'', PList (map PStr (lines raw)))])
   \<and> lines raw = map strip (filter (\<lambda>line. \<not> (\<forall>c \<in> set line. is_space c))
                                     (py_split raw CHR 0x0A))
   \<and> py_join [CHR 0x0A] (py_split raw CHR 0x0A) = raw
   \<and> (\<forall>line \<in> set (py_split raw CHR 0x0A). CHR 0x0A \<notin> set line)
   \<and> (\<forall>line \<in> set (py_split raw CHR 0x0A).
         \<exists>before after. line = before @ strip line @ after
           \<and> (\<forall>c \<in> set before. is_space c) \<and> (\<forall>c \<in> set after. is_space c))
   \<and> [] \<notin> set (lines raw)
   \<and> (\<forall>line \<in> set (lines raw). \<not> is_space (hd line) \<and> \<not> is_space (last line))
   \<and> format_response (PStr '''') = Inr (PDict [(''netmiko_response'', PList [])])
   \<and> format_response (PStr ''   \<newline>  \<newline>'') = Inr (PDict [(''netmiko_response'', PList [])])"
proof (intro conjI ballI)
  show "format_response (PStr raw)
          = Inr (PDict [(''netmiko_response'', PList (map PStr (lines raw)))])"
    by simp
  show "lines raw = map strip (filter (\<lambda>line. \<not> (\<forall>c \<in> set line. is_space c))
                                     (py_split raw CHR 0x0A))"
    by (rule lines_blank)
  show "py_join [CHR 0x0A] (py_split raw CHR 0x0A) = raw"
    by (rule py_join_split)
  show "CHR 0x0A \<notin> set line" if "line \<in> set (py_split raw CHR 0x0A)" for line
    using that by (rule py_split_no_sep)
  show "\<exists>before after. line = before @ strip line @ after
           \<and> (\<forall>c \<in> set before. is_space c) \<and> (\<forall>c \<in> set after. is_space c)"
    if "line \<in> set (py_split raw CHR 0x0A)" for line
    by (rule strip_parts)
  show "[] \<notin> set (lines raw)"
    by (rule lines_no_empty)
  show "\<not> is_space (hd line)" if "line \<in> set (lines raw)" for line
    using that strip_ends(1) by (auto simp: lines_def)
  show "\<not> is_space (last line)" if "line \<in> set (lines raw)" for line
    using that strip_ends(2) by (auto simp: lines_def)
  show "format_response (PStr '''') = Inr (PDict [(''netmiko_response'', PList [])])"
    by (simp add: lines_def strip_def lstrip_def rstrip_def)
  show "format_response (PStr ''   \<newline>  \<newline>'')
          = Inr (PDict [(''netmiko_response'', PList [])])"
    by (simp add: lines_def strip_def lstrip_def rstrip_def is_space_def)
qed

theorem format_response_lines_witness:
  "format_response (PStr ''  Gi0 up \<newline>   \<newline>Gi1 down'')
     = Inr (PDict [(''netmiko_response'', PList [PStr ''Gi0 up'', PStr ''Gi1 down''])])
   \<and> py_split ''  Gi0 up \<newline>   \<newline>Gi1 down'' CHR 0x0A = [''  Gi0 up '', ''   '', ''Gi1 down'']
   \<and> lines ''  Gi0 up \<newline>   \<newline>Gi1 down'' = [''Gi0 up'', ''Gi1 down'']
   \<and> \<not> is_space (hd ''Gi0 up'') \<and> \<not> is_space (last ''Gi0 up'')
   \<and> \<not> is_space (hd ''Gi1 down'') \<and> \<not> is_space (last ''Gi1 down'')"
proof -
  have split: "py_split ''  Gi0 up \<newline>   \<newline>Gi1 down'' CHR 0x0A
                 = [''  Gi0 up '', ''   '', ''Gi1 down'']"
    by simp
  have kept: "lines ''  Gi0 up \<newline>   \<newline>Gi1 down'' = [''Gi0 up'', ''Gi1 down'']"
    by (simp add: lines_def strip_def lstrip_def rstrip_def is_space_def)
  show ?thesis
    using format_response_lines [of "''  Gi0 up \<newline>   \<newline>Gi1 down''"] split kept
    by (simp add: strip_def lstrip_def rstrip_def is_space_def)
qed

text \<open>
  C8. When the session opens, the device prints the two interface lines with an empty
  line between them for \<^verbatim>\<open>show ip interface brief\<close>, and the session closes without
  an exception, \<^verbatim>\<open>/device_interfaces\<close> answers 200 with the two lines under
  \<^verbatim>\<open>netmiko_response\<close>, the spaces inside each line kept.
\<close>

theorem device_interfaces_example:
  assumes "ConnectHandler device_info = Inr conn"
    and "send_command conn (PStr ''show ip interface brief'')
           = Inr ''Gi0/0/0/0   up   up\<newline>\<newline>Gi0/0/0/1  down  down''"
    and "exit_raises conn = None"
  shows "device_interfaces ConnectHandler
           = Inr \<lparr>status = 200,
                  body = PDict [(''netmiko_response'',
                                 PList [PStr ''Gi0/0/0/0   up   up'',
                                        PStr ''Gi0/0/0/1  down  down''])]\<rparr>"
proof -
  have adapter: "send_netmiko_request ConnectHandler device_info (PStr ''show ip interface brief'')
          = Inr ''Gi0/0/0/0   up   up\<newline>\<newline>Gi0/0/0/1  down  down''"
    using assms by (simp add: send_netmiko_request_cases)
  have two: "lines ''Gi0/0/0/0   up   up\<newline>\<newline>Gi0/0/0/1  down  down''
          = [''Gi0/0/0/0   up   up'', ''Gi0/0/0/1  down  down'']"
    by (simp add: lines_def strip_def lstrip_def rstrip_def is_space_def)
  show ?thesis
    using device_interfaces_ok [OF adapter] two by (simp add: jsonify_def)
qed

theorem device_interfaces_example_witness:
  "router device_info = Inr router_conn
   \<and> send_command router_conn (PStr ''show ip interface brief'')
     = Inr ''Gi0/0/0/0   up   up\<newline>\<newline>Gi0/0/0/1  down  down''
   \<and> exit_raises router_conn = None
   \<and> device_interfaces router
     = Inr \<lparr>status = 200,
            body = PDict [(''netmiko_response'',
                           PList [PStr ''Gi0/0/0/0   up   up'',
                                  PStr ''Gi0/0/0/1  down  down''])]\<rparr>"
proof -
  have opens: "router device_info = Inr router_conn"
    by (simp add: router_def)
  have prints: "send_command router_conn (PStr ''show ip interface brief'')
     = Inr ''Gi0/0/0/0   up   up\<newline>\<newline>Gi0/0/0/1  down  down''"
    by (simp add: router_conn_def)
  have closes: "exit_raises router_conn = None"
    by (simp add: router_conn_def)
  show ?thesis
    using device_interfaces_example [of router router_conn, OF opens prints closes]
      opens prints closes
    by simp
qed

text \<open>
  C9, as the claim states it, fails: the formatter calls \<^verbatim>\<open>split\<close> on its argument
  without converting it, so \<^verbatim>\<open>None\<close> raises \<^verbatim>\<open>AttributeError\<close>.
\<close>

theorem format_response_of_None_raises:
  "format_response PNone
     = Inl (Exn ''AttributeError''
              ([CHR 0x27] @ ''NoneType'' @ [CHR 0x27] @ '' object has no attribute ''
               @ [CHR 0x27] @ ''split'' @ [CHR 0x27]))"
  by (simp add: attribute_error_def)

text \<open>
  C9, amended. The formatter has no effect and returns a list of strings for every
  string. An argument that is not a string is not converted: the call raises
  \<^verbatim>\<open>AttributeError\<close> for the missing \<^verbatim>\<open>split\<close>.
\<close>

theorem format_response_total_on_str:
  "(\<exists>ls. format_response (PStr s) = Inr (PDict [(''netmiko_response'', PList (map PStr ls))]))
   \<and> (type_name v \<noteq> ''str'' \<longrightarrow> format_response v = Inl (attribute_error v ''split''))"
  using format_response_not_str by auto

theorem format_response_total_on_str_witness:
  "type_name (PInt 7) \<noteq> ''str''
   \<and> format_response (PInt 7) = Inl (attribute_error (PInt 7) ''split'')
   \<and> exn_class (attribute_error (PInt 7) ''split'') = ''AttributeError''"
  using format_response_total_on_str [of "[]" "PInt 7"]
  by (simp add: attribute_error_def)

end
